theory Spec2Isabelle
  imports Main "HOL-Library.Sublist" "HOL-Library.Char_ord" "HOL-Library.List_Lexorder"
begin

section \<open>Application variables of CDS: engine/api/application/application_variable.go\<close>

text \<open>
  The Go package stores the variables of an application in a relational database,
  encrypts the values of secret kinds through the package \<open>secret\<close>, and keeps audit
  snapshots of the whole collection. The Go functions are embedded below one by one,
  under their own names. A Go \<open>string\<close> is a byte sequence, here a \<open>string\<close> (a list
  of 8-bit characters); an \<open>int64\<close> identifier is an \<open>int\<close> (no arithmetic is done
  on identifiers); a function returning \<open>(T, error)\<close> returns \<open>error + T\<close>, with
  \<open>Inl\<close> the error; a function returning only \<open>error\<close> and writing to the database
  returns the error (\<open>None\<close> for \<open>nil\<close>) and the database after the call.
\<close>

subsection \<open>Errors\<close>

text \<open>
  Go errors are compared by identity, so the package's sentinel errors are constructors
  of their own: \<open>ErrNoVariable\<close> (declared in the file), \<open>sdk.ErrVariableExists\<close>,
  \<open>sql.ErrNoRows\<close>, the error of \<open>Scan\<close> when a NULL column is read into a Go
  \<open>string\<close>, and \<open>ErrorString\<close> for every other error, carrying its message (a driver
  error, a codec error, a base64 or JSON error).
\<close>

datatype error =
    ErrNoVariable
  | ErrVariableExists
  | ErrNoRows
  | ErrScanNull
  | ErrorString string

text \<open>
  \<open>err.Error()\<close>. The text of \<open>ErrNoVariable\<close> is in the file; that of
  \<open>sql.ErrNoRows\<close> and of the scan error are those of Go's database/sql.
  Modelled from the spec: the text of \<open>sdk.ErrVariableExists\<close> (package sdk is not
  among the sources), which the spec calls the "variable already exists" domain error.
\<close>

fun Error_text :: "error \<Rightarrow> string" where
  "Error_text ErrNoVariable = ''variable not in the application''"
| "Error_text ErrVariableExists = ''variable already exists''"
| "Error_text ErrNoRows = ''sql: no rows in result set''"
| "Error_text ErrScanNull = ''sql: Scan error on column index 2: converting NULL to string is unsupported''"
| "Error_text (ErrorString m) = m"

text \<open>\<open>strings.Contains s substr\<close>: \<open>substr\<close> occurs in \<open>s\<close> as a contiguous block.\<close>

fun Contains :: "string \<Rightarrow> string \<Rightarrow> bool" where
  "Contains [] substr = (substr = [])"
| "Contains (c # s) substr = (prefix substr (c # s) \<or> Contains s substr)"

subsection \<open>The types of package sdk that the file uses\<close>

type_synonym VariableType = string

record Variable =
  ID :: int
  Name :: string
  Value :: string
  Type :: VariableType

record VariableAudit =
  audit_ID :: int
  Versionned :: nat
  Author :: string
  Variables :: "Variable list"

record Application =
  app_ID :: int
  app_Name :: string

record User =
  Username :: string

subsection \<open>Functional arguments\<close>

record structarg =
  clearsecret :: bool
  encryptsecret :: bool

type_synonym FuncArg = "structarg \<Rightarrow> structarg"

definition WithClearPassword :: FuncArg where
  "WithClearPassword args = args\<lparr>clearsecret := True\<rparr>"

definition WithEncryptPassword :: FuncArg where
  "WithEncryptPassword args = args\<lparr>encryptsecret := True\<rparr>"

text \<open>\<open>c := structarg{}; for _, f := range args { f(&c) }\<close>\<close>

definition apply_args :: "FuncArg list \<Rightarrow> structarg" where
  "apply_args args = foldl (\<lambda>c f. f c) \<lparr>clearsecret = False, encryptsecret = False\<rparr> args"

subsection \<open>What the file calls in other packages\<close>

text \<open>
  Packages \<open>sdk\<close> and \<open>secret\<close> of the repository and Go's \<open>encoding/base64\<close> and
  \<open>encoding/json\<close> are not among the sources. The functions of the file take what
  they call there as a parameter \<open>d\<close>, a record of
  \<^item> \<open>sdk.NeedPlaceholder\<close>, \<open>sdk.PasswordPlaceholder\<close>, \<open>sdk.VariableTypeFromString\<close>;
  \<^item> \<open>secret.EncryptS\<close>, from a kind and a value to the clear column (a
    \<open>sql.NullString\<close>, \<open>None\<close> for NULL) and the cipher column, and
    \<open>secret.DecryptS\<close>, from a kind, the two columns and the flag \<open>clear\<close> to a value;
  \<^item> \<open>base64.StdEncoding.EncodeToString\<close> and \<open>DecodeString\<close>;
  \<^item> \<open>json.Marshal\<close> and \<open>json.Unmarshal\<close> on \<open>[]sdk.Variable\<close>; \<open>Unmarshal\<close>
    yields what it has stored in the slice together with its error, since \<open>GetAudit\<close>
    goes on with the slice before it looks at the error.
  A \<open>[]byte\<close> is a \<open>string\<close> as well: the file only converts between the two.
\<close>

record deps =
  NeedPlaceholder :: "VariableType \<Rightarrow> bool"
  PasswordPlaceholder :: string
  VariableTypeFromString :: "string \<Rightarrow> VariableType"
  EncryptS :: "VariableType \<Rightarrow> string \<Rightarrow> error + (string option \<times> string)"
  DecryptS :: "VariableType \<Rightarrow> string option \<Rightarrow> string \<Rightarrow> bool \<Rightarrow> error + string"
  EncodeToString :: "string \<Rightarrow> string"
  DecodeString :: "string \<Rightarrow> error + string"
  Marshal :: "Variable list \<Rightarrow> error + string"
  Unmarshal :: "string \<Rightarrow> Variable list \<times> error option"

subsection \<open>The database\<close>

text \<open>
  The tables the queries of the file read and write, with the columns they name.
  \<open>var_value\<close> is nullable (the file scans it into a \<open>sql.NullString\<close>); a NULL
  \<open>cipher_value\<close> scans into a nil \<open>[]byte\<close>, which is the empty string once
  converted, so the column is a \<open>string\<close>.
\<close>

record application_row =
  a_id :: int
  a_name :: string
  a_project_id :: int
  a_last_modified :: nat

record project_row =
  p_id :: int
  p_projectkey :: string

record variable_row =
  v_id :: int
  v_application_id :: int
  var_name :: string
  var_value :: "string option"
  cipher_value :: string
  var_type :: string

record audit_row =
  au_id :: int
  au_versionned :: nat
  au_application_id :: int
  au_data :: string
  au_author :: string

text \<open>The SQL statements of the file, one name for each, after the function that issues it.\<close>

datatype statement =
    InsertAudit
  | SelectAudit
  | SelectVariableAudit
  | SelectAllVariable
  | SelectVariable
  | SelectAllVariableByID
  | InsertApplicationVariable
  | UpdateApplicationVariable
  | DeleteApplicationVariable
  | DeleteAllApplicationVariable
  | UpdateApplicationLastModified

text \<open>
  The state of the store: the four tables, the two sequences that number new rows,
  the clock that \<open>NOW()\<close> and \<open>current_timestamp\<close> read, and \<open>fault\<close>, which says for
  each statement whether the store refuses it, and with which driver message
  (a lost connection, a missing privilege): the file must propagate such errors.
\<close>

record database =
  application :: "application_row list"
  project :: "project_row list"
  application_variable :: "variable_row list"
  application_variable_audit :: "audit_row list"
  application_variable_id_seq :: int
  application_variable_audit_id_seq :: int
  current_timestamp :: nat
  fault :: "statement \<Rightarrow> string option"

text \<open>\<open>sql.Result\<close>: the file only calls \<open>RowsAffected()\<close>, which returns \<open>(int64, error)\<close>.\<close>

record Result =
  RowsAffected :: "error + int"

text \<open>
  Modelled from the spec: the uniqueness constraint of \<open>application_variable\<close> on
  (application, name), which the schema (not among the sources) declares and the
  file knows by its name \<open>application_variable_pkey\<close>. This is the message of the
  PostgreSQL driver when an insert violates it.
\<close>

definition duplicate_key :: string where
  "duplicate_key = ''pq: duplicate key value violates unique constraint '' @
     [CHR 0x22] @ ''application_variable_pkey'' @ [CHR 0x22]"

subsubsection \<open>Queries\<close>

text \<open>
  \<^verbatim>\<open>SELECT ... FROM application_variable
  JOIN application ON application.id = application_variable.application_id
  JOIN project ON project.id = application.project_id
  WHERE application.name = $1 AND project.projectKey = $2 ORDER BY var_name\<close>
\<close>

definition query_all_variable :: "database \<Rightarrow> string \<Rightarrow> string \<Rightarrow> error + variable_row list" where
  "query_all_variable db appName key =
     (case fault db SelectAllVariable of
        Some m \<Rightarrow> Inl (ErrorString m)
      | None \<Rightarrow> Inr (sort_key var_name
          [v. v \<leftarrow> application_variable db,
              a \<leftarrow> application db, a_id a = v_application_id v,
              p \<leftarrow> project db, p_id p = a_project_id a,
              a_name a = appName \<and> p_projectkey p = key]))"

text \<open>
  \<^verbatim>\<open>SELECT ... FROM application_variable
  WHERE application_variable.application_id = $1 ORDER BY var_name\<close>
\<close>

definition query_all_variable_by_id :: "database \<Rightarrow> int \<Rightarrow> error + variable_row list" where
  "query_all_variable_by_id db applicationID =
     (case fault db SelectAllVariableByID of
        Some m \<Rightarrow> Inl (ErrorString m)
      | None \<Rightarrow> Inr (sort_key var_name
          (filter (\<lambda>v. v_application_id v = applicationID) (application_variable db))))"

text \<open>
  \<^verbatim>\<open>SELECT id, var_name, var_value, var_type FROM application_variable
  WHERE application_id = $1 AND var_name = $2\<close>
  read with \<open>QueryRow\<close>: the first row, or \<open>sql.ErrNoRows\<close>.
\<close>

definition query_row_variable :: "database \<Rightarrow> int \<Rightarrow> string \<Rightarrow> error + variable_row" where
  "query_row_variable db appID varName =
     (case fault db SelectVariable of
        Some m \<Rightarrow> Inl (ErrorString m)
      | None \<Rightarrow>
          (case filter (\<lambda>v. v_application_id v = appID \<and> var_name v = varName) (application_variable db) of
             [] \<Rightarrow> Inl ErrNoRows
           | v # _ \<Rightarrow> Inr v))"

text \<open>
  \<^verbatim>\<open>SELECT application_variable_audit.id, versionned, data, author
  FROM application_variable_audit
  JOIN application ON application.id = application_variable_audit.application_id
  JOIN project ON project.id = application.project_id
  WHERE application.name = $1 AND project.projectkey = $2
  ORDER BY application_variable_audit.versionned DESC\<close>
\<close>

definition query_variable_audit :: "database \<Rightarrow> string \<Rightarrow> string \<Rightarrow> error + audit_row list" where
  "query_variable_audit db appName key =
     (case fault db SelectVariableAudit of
        Some m \<Rightarrow> Inl (ErrorString m)
      | None \<Rightarrow> Inr (rev (sort_key au_versionned
          [au. au \<leftarrow> application_variable_audit db,
               a \<leftarrow> application db, a_id a = au_application_id au,
               p \<leftarrow> project db, p_id p = a_project_id a,
               a_name a = appName \<and> p_projectkey p = key])))"

text \<open>
  The same joins, with \<open>AND application_variable_audit.id = $3\<close>, selecting \<open>data\<close>
  only and read with \<open>QueryRow\<close>.
\<close>

definition query_row_audit :: "database \<Rightarrow> string \<Rightarrow> string \<Rightarrow> int \<Rightarrow> error + string" where
  "query_row_audit db appName key auditID =
     (case fault db SelectAudit of
        Some m \<Rightarrow> Inl (ErrorString m)
      | None \<Rightarrow>
          (case rev (sort_key au_versionned
                  [au. au \<leftarrow> application_variable_audit db,
                       a \<leftarrow> application db, a_id a = au_application_id au,
                       p \<leftarrow> project db, p_id p = a_project_id a,
                       a_name a = appName \<and> p_projectkey p = key \<and> au_id au = auditID]) of
             [] \<Rightarrow> Inl ErrNoRows
           | au # _ \<Rightarrow> Inr (au_data au)))"

subsubsection \<open>Statements that write\<close>

text \<open>
  \<^verbatim>\<open>INSERT INTO application_variable_audit (versionned, application_id, data, author)
  VALUES (NOW(), $1, $2, $3)\<close>
\<close>

definition exec_insert_audit :: "database \<Rightarrow> int \<Rightarrow> string \<Rightarrow> string \<Rightarrow> (error + Result) \<times> database" where
  "exec_insert_audit db appID dat usr =
     (case fault db InsertAudit of
        Some m \<Rightarrow> (Inl (ErrorString m), db)
      | None \<Rightarrow>
          (Inr \<lparr>RowsAffected = Inr 1\<rparr>,
           db\<lparr>application_variable_audit := application_variable_audit db @
                 [\<lparr>au_id = application_variable_audit_id_seq db,
                   au_versionned = current_timestamp db,
                   au_application_id = appID, au_data = dat, au_author = usr\<rparr>],
              application_variable_audit_id_seq := application_variable_audit_id_seq db + 1\<rparr>))"

text \<open>
  \<^verbatim>\<open>INSERT INTO application_variable(application_id, var_name, var_value, cipher_value, var_type)
  VALUES($1, $2, $3, $4, $5)\<close>
\<close>

definition exec_insert_variable ::
  "database \<Rightarrow> int \<Rightarrow> string \<Rightarrow> string option \<Rightarrow> string \<Rightarrow> string \<Rightarrow> (error + Result) \<times> database" where
  "exec_insert_variable db applicationID name clear cipher typ =
     (case fault db InsertApplicationVariable of
        Some m \<Rightarrow> (Inl (ErrorString m), db)
      | None \<Rightarrow>
          if list_ex (\<lambda>v. v_application_id v = applicationID \<and> var_name v = name) (application_variable db)
          then (Inl (ErrorString duplicate_key), db)
          else
            (Inr \<lparr>RowsAffected = Inr 1\<rparr>,
             db\<lparr>application_variable := application_variable db @
                   [\<lparr>v_id = application_variable_id_seq db, v_application_id = applicationID,
                     var_name = name, var_value = clear, cipher_value = cipher, var_type = typ\<rparr>],
                application_variable_id_seq := application_variable_id_seq db + 1\<rparr>))"

text \<open>
  \<^verbatim>\<open>UPDATE application_variable SET var_value=$1, cipher_value=$2, var_type=$3
  WHERE application_id = $4 AND var_name=$5\<close>
\<close>

definition exec_update_variable ::
  "database \<Rightarrow> string option \<Rightarrow> string \<Rightarrow> string \<Rightarrow> int \<Rightarrow> string \<Rightarrow> (error + Result) \<times> database" where
  "exec_update_variable db clear cipher typ applicationID name =
     (case fault db UpdateApplicationVariable of
        Some m \<Rightarrow> (Inl (ErrorString m), db)
      | None \<Rightarrow>
          (Inr \<lparr>RowsAffected = Inr (int (length
                  (filter (\<lambda>v. v_application_id v = applicationID \<and> var_name v = name)
                     (application_variable db))))\<rparr>,
           db\<lparr>application_variable :=
                 map (\<lambda>v. if v_application_id v = applicationID \<and> var_name v = name
                           then v\<lparr>var_value := clear, cipher_value := cipher, var_type := typ\<rparr>
                           else v)
                   (application_variable db)\<rparr>))"

text \<open>
  \<^verbatim>\<open>DELETE FROM application_variable USING application
  WHERE application.id = $1 AND application_variable.var_name = $2\<close>
  A row of \<open>application_variable\<close> goes when some row of \<open>application\<close> makes the
  condition true together with it. The condition does not relate the two tables.
\<close>

definition exec_delete_variable :: "database \<Rightarrow> int \<Rightarrow> string \<Rightarrow> (error + Result) \<times> database" where
  "exec_delete_variable db applicationID variableName =
     (case fault db DeleteApplicationVariable of
        Some m \<Rightarrow> (Inl (ErrorString m), db)
      | None \<Rightarrow>
          (Inr \<lparr>RowsAffected = Inr (int (length
                  (filter (\<lambda>v. list_ex (\<lambda>a. a_id a = applicationID \<and> var_name v = variableName) (application db))
                     (application_variable db))))\<rparr>,
           db\<lparr>application_variable :=
                 filter (\<lambda>v. \<not> list_ex (\<lambda>a. a_id a = applicationID \<and> var_name v = variableName) (application db))
                   (application_variable db)\<rparr>))"

text \<open>\<^verbatim>\<open>DELETE FROM application_variable WHERE application_variable.application_id = $1\<close>\<close>

definition exec_delete_all_variable :: "database \<Rightarrow> int \<Rightarrow> (error + Result) \<times> database" where
  "exec_delete_all_variable db applicationID =
     (case fault db DeleteAllApplicationVariable of
        Some m \<Rightarrow> (Inl (ErrorString m), db)
      | None \<Rightarrow>
          (Inr \<lparr>RowsAffected = Inr (int (length
                  (filter (\<lambda>v. v_application_id v = applicationID) (application_variable db))))\<rparr>,
           db\<lparr>application_variable :=
                 filter (\<lambda>v. v_application_id v \<noteq> applicationID) (application_variable db)\<rparr>))"

text \<open>\<^verbatim>\<open>UPDATE application SET last_modified = current_timestamp WHERE id=$1\<close>\<close>

definition exec_update_last_modified :: "database \<Rightarrow> int \<Rightarrow> (error + Result) \<times> database" where
  "exec_update_last_modified db applicationID =
     (case fault db UpdateApplicationLastModified of
        Some m \<Rightarrow> (Inl (ErrorString m), db)
      | None \<Rightarrow>
          (Inr \<lparr>RowsAffected = Inr (int (length (filter (\<lambda>a. a_id a = applicationID) (application db))))\<rparr>,
           db\<lparr>application :=
                 map (\<lambda>a. if a_id a = applicationID then a\<lparr>a_last_modified := current_timestamp db\<rparr> else a)
                   (application db)\<rparr>))"

subsection \<open>The functions of the file\<close>

subsubsection \<open>GetAllVariable\<close>

text \<open>
  The loop over the rows of \<open>GetAllVariable\<close>: \<open>variables\<close> is the slice built so
  far. Every column scans into its destination (\<open>sql.NullString\<close>, \<open>[]byte\<close>), so
  \<open>rows.Scan\<close> does not fail; an error of \<open>DecryptS\<close> ends the loop.
\<close>

fun GetAllVariable_rows :: "deps \<Rightarrow> structarg \<Rightarrow> variable_row list \<Rightarrow> Variable list \<Rightarrow> error + Variable list" where
  "GetAllVariable_rows d c [] variables = Inr variables"
| "GetAllVariable_rows d c (r # rows) variables =
     (let typ = VariableTypeFromString d (var_type r) in
      case (if encryptsecret c \<and> NeedPlaceholder d typ
            then Inr (cipher_value r)
            else DecryptS d typ (var_value r) (cipher_value r) (clearsecret c)) of
        Inl err \<Rightarrow> Inl err
      | Inr val \<Rightarrow>
          GetAllVariable_rows d c rows
            (variables @ [\<lparr>ID = v_id r, Name = var_name r, Value = val, Type = typ\<rparr>]))"

definition GetAllVariable :: "deps \<Rightarrow> database \<Rightarrow> string \<Rightarrow> string \<Rightarrow> FuncArg list \<Rightarrow> error + Variable list" where
  "GetAllVariable d db key appName args =
     (let c = apply_args args in
      case query_all_variable db appName key of
        Inl err \<Rightarrow> Inl err
      | Inr rows \<Rightarrow> GetAllVariable_rows d c rows [])"

subsubsection \<open>CreateAudit\<close>

definition CreateAudit :: "deps \<Rightarrow> database \<Rightarrow> string \<Rightarrow> Application \<Rightarrow> User \<Rightarrow> error option \<times> database" where
  "CreateAudit d db key app u =
     (case GetAllVariable d db key (app_Name app) [WithEncryptPassword] of
        Inl err \<Rightarrow> (Some err, db)
      | Inr variables \<Rightarrow>
          (case Marshal d
                  (map (\<lambda>v. if NeedPlaceholder d (Type v)
                             then v\<lparr>Value := EncodeToString d (Value v)\<rparr> else v) variables) of
             Inl err \<Rightarrow> (Some err, db)
           | Inr dat \<Rightarrow>
               (case exec_insert_audit db (app_ID app) dat (Username u) of
                  (Inl err, db') \<Rightarrow> (Some err, db')
                | (Inr _, db') \<Rightarrow> (None, db'))))"

subsubsection \<open>GetAudit\<close>

text \<open>
  The loop of \<open>GetAudit\<close> over the deserialized slice: the value of every entry of a
  secret kind is base64-decoded in place; the first decoding error is returned.
\<close>

fun GetAudit_decode :: "deps \<Rightarrow> Variable list \<Rightarrow> error + Variable list" where
  "GetAudit_decode d [] = Inr []"
| "GetAudit_decode d (v # variables) =
     (if NeedPlaceholder d (Type v) then
        (case DecodeString d (Value v) of
           Inl err \<Rightarrow> Inl err
         | Inr decode \<Rightarrow>
             (case GetAudit_decode d variables of
                Inl err \<Rightarrow> Inl err
              | Inr vs \<Rightarrow> Inr (v\<lparr>Value := decode\<rparr> # vs)))
      else
        (case GetAudit_decode d variables of
           Inl err \<Rightarrow> Inl err
         | Inr vs \<Rightarrow> Inr (v # vs)))"

text \<open>
  The error of \<open>json.Unmarshal\<close> is kept while the loop runs on what was
  deserialized, and returned at the end with the slice: a non-nil error is \<open>Inl\<close>.
\<close>

definition GetAudit :: "deps \<Rightarrow> database \<Rightarrow> string \<Rightarrow> string \<Rightarrow> int \<Rightarrow> error + Variable list" where
  "GetAudit d db key appName auditID =
     (case query_row_audit db appName key auditID of
        Inl err \<Rightarrow> Inl err
      | Inr dat \<Rightarrow>
          (case Unmarshal d dat of
             (variables, err) \<Rightarrow>
               (case GetAudit_decode d variables of
                  Inl err' \<Rightarrow> Inl err'
                | Inr vs \<Rightarrow> (case err of Some e \<Rightarrow> Inl e | None \<Rightarrow> Inr vs))))"

subsubsection \<open>GetVariableAudit\<close>

fun GetVariableAudit_rows :: "deps \<Rightarrow> audit_row list \<Rightarrow> VariableAudit list \<Rightarrow> error + VariableAudit list" where
  "GetVariableAudit_rows d [] audits = Inr audits"
| "GetVariableAudit_rows d (r # rows) audits =
     (case Unmarshal d (au_data r) of
        (vars, Some err) \<Rightarrow> Inl err
      | (vars, None) \<Rightarrow>
          GetVariableAudit_rows d rows
            (audits @ [\<lparr>audit_ID = au_id r, Versionned = au_versionned r, Author = au_author r,
                        Variables = map (\<lambda>v. if NeedPlaceholder d (Type v)
                                              then v\<lparr>Value := PasswordPlaceholder d\<rparr> else v) vars\<rparr>]))"

definition GetVariableAudit :: "deps \<Rightarrow> database \<Rightarrow> string \<Rightarrow> string \<Rightarrow> error + VariableAudit list" where
  "GetVariableAudit d db key appName =
     (case query_variable_audit db appName key of
        Inl err \<Rightarrow> Inl err
      | Inr rows \<Rightarrow> GetVariableAudit_rows d rows [])"

subsubsection \<open>LoadVariable\<close>

text \<open>
  \<open>Scan(&v.ID, &v.Name, &v.Value, &v.Type)\<close> reads \<open>var_value\<close> into the Go \<open>string\<close>
  \<open>v.Value\<close>, and database/sql refuses to convert NULL to a \<open>string\<close>: on a row
  whose \<open>var_value\<close> is NULL the scan returns an error. \<open>var_type\<close> is read as it
  is stored, without \<open>VariableTypeFromString\<close>.
\<close>

definition LoadVariable :: "deps \<Rightarrow> database \<Rightarrow> int \<Rightarrow> string \<Rightarrow> error + Variable" where
  "LoadVariable d db appID varName =
     (case query_row_variable db appID varName of
        Inl err \<Rightarrow> Inl err
      | Inr r \<Rightarrow>
          (case var_value r of
             None \<Rightarrow> Inl ErrScanNull
           | Some val \<Rightarrow>
               (let v = \<lparr>ID = v_id r, Name = var_name r, Value = val, Type = var_type r\<rparr> in
                if NeedPlaceholder d (Type v) then Inr (v\<lparr>Value := PasswordPlaceholder d\<rparr>)
                else Inr v)))"

subsubsection \<open>GetAllVariableByID\<close>

fun GetAllVariableByID_rows :: "deps \<Rightarrow> structarg \<Rightarrow> variable_row list \<Rightarrow> Variable list \<Rightarrow> error + Variable list" where
  "GetAllVariableByID_rows d c [] variables = Inr variables"
| "GetAllVariableByID_rows d c (r # rows) variables =
     (let typ = VariableTypeFromString d (var_type r) in
      case DecryptS d typ (var_value r) (cipher_value r) (clearsecret c) of
        Inl err \<Rightarrow> Inl err
      | Inr val \<Rightarrow>
          GetAllVariableByID_rows d c rows
            (variables @ [\<lparr>ID = v_id r, Name = var_name r, Value = val, Type = typ\<rparr>]))"

definition GetAllVariableByID :: "deps \<Rightarrow> database \<Rightarrow> int \<Rightarrow> FuncArg list \<Rightarrow> error + Variable list" where
  "GetAllVariableByID d db applicationID fargs =
     (let c = apply_args fargs in
      case query_all_variable_by_id db applicationID of
        Inl err \<Rightarrow> Inl err
      | Inr rows \<Rightarrow> GetAllVariableByID_rows d c rows [])"

subsubsection \<open>UpdateLastModified\<close>

text \<open>
  Modelled from the spec: \<open>UpdateLastModified\<close> is a function of the package in
  another file; the spec says it bumps the owner's \<open>last_modified\<close>, a write of its
  own whose error is propagated. It is given the statement that \<open>DeleteAllVariable\<close>
  issues inline for the same purpose.
\<close>

definition UpdateLastModified :: "database \<Rightarrow> int \<Rightarrow> error option \<times> database" where
  "UpdateLastModified db appID =
     (case exec_update_last_modified db appID of
        (Inl err, db') \<Rightarrow> (Some err, db')
      | (Inr _, db') \<Rightarrow> (None, db'))"

subsubsection \<open>InsertVariable\<close>

definition InsertVariable :: "deps \<Rightarrow> database \<Rightarrow> int \<Rightarrow> Variable \<Rightarrow> error option \<times> database" where
  "InsertVariable d db applicationID variable =
     (case EncryptS d (Type variable) (Value variable) of
        Inl err \<Rightarrow> (Some err, db)
      | Inr (clear, cipher) \<Rightarrow>
          (case exec_insert_variable db applicationID (Name variable) clear cipher (Type variable) of
             (Inl err, db') \<Rightarrow>
               if Contains (Error_text err) ''application_variable_pkey''
               then (Some ErrVariableExists, db')
               else (Some err, db')
           | (Inr _, db') \<Rightarrow> UpdateLastModified db' applicationID))"

subsubsection \<open>UpdateVariable\<close>

definition UpdateVariable :: "deps \<Rightarrow> database \<Rightarrow> int \<Rightarrow> Variable \<Rightarrow> error option \<times> database" where
  "UpdateVariable d db applicationID variable =
     (if NeedPlaceholder d (Type variable) \<and> Value variable = PasswordPlaceholder d
      then (None, db)
      else
        (case EncryptS d (Type variable) (Value variable) of
           Inl err \<Rightarrow> (Some err, db)
         | Inr (clear, cipher) \<Rightarrow>
             (case exec_update_variable db clear cipher (Type variable) applicationID (Name variable) of
                (Inl err, db') \<Rightarrow> (Some err, db')
              | (Inr result, db') \<Rightarrow>
                  (case RowsAffected result of
                     Inl err \<Rightarrow> (Some err, db')
                   | Inr rowAffected \<Rightarrow>
                       if rowAffected = 0 then (Some ErrNoVariable, db')
                       else UpdateLastModified db' applicationID))))"

subsubsection \<open>DeleteVariable and DeleteAllVariable\<close>

definition DeleteVariable :: "database \<Rightarrow> int \<Rightarrow> string \<Rightarrow> error option \<times> database" where
  "DeleteVariable db applicationID variableName =
     (case exec_delete_variable db applicationID variableName of
        (Inl err, db') \<Rightarrow> (Some err, db')
      | (Inr result, db') \<Rightarrow>
          (case RowsAffected result of
             Inl err \<Rightarrow> (Some err, db')
           | Inr rowAffected \<Rightarrow>
               if rowAffected = 0 then (Some ErrNoVariable, db')
               else UpdateLastModified db' applicationID))"

definition DeleteAllVariable :: "database \<Rightarrow> int \<Rightarrow> error option \<times> database" where
  "DeleteAllVariable db applicationID =
     (case exec_delete_all_variable db applicationID of
        (Inl err, db') \<Rightarrow> (Some err, db')
      | (Inr _, db') \<Rightarrow>
          (case exec_update_last_modified db' applicationID of
             (Inl err, db'') \<Rightarrow> (Some err, db'')
           | (Inr _, db'') \<Rightarrow> (None, db'')))"

subsection \<open>A concrete instance of the other packages\<close>

text \<open>
  The theorems below hold for every \<open>d\<close>. To run the functions on concrete
  databases, \<open>example_deps\<close> gives \<open>d\<close> a value: the two secret kinds
  \<open>password\<close> and \<open>key\<close>, the placeholder of ten stars, a toy cipher that reverses
  the plaintext behind the tag \<open>enc:\<close>, base64 with the standard alphabet and
  padding, and JSON for a slice of variables, written without white space and read
  back in that form only.
\<close>

definition example_NeedPlaceholder :: "VariableType \<Rightarrow> bool" where
  "example_NeedPlaceholder t = (t = ''password'' \<or> t = ''key'')"

definition example_VariableTypeFromString :: "string \<Rightarrow> VariableType" where
  "example_VariableTypeFromString s =
     (if s \<in> set [''string'', ''text'', ''boolean'', ''number'', ''password'', ''key''] then s
      else ''string'')"

definition example_EncryptS :: "VariableType \<Rightarrow> string \<Rightarrow> error + (string option \<times> string)" where
  "example_EncryptS t v =
     (if example_NeedPlaceholder t then Inr (None, ''enc:'' @ rev v) else Inr (Some v, []))"

definition example_DecryptS :: "VariableType \<Rightarrow> string option \<Rightarrow> string \<Rightarrow> bool \<Rightarrow> error + string" where
  "example_DecryptS t val dat clear =
     (if \<not> example_NeedPlaceholder t then Inr (case val of None \<Rightarrow> [] | Some s \<Rightarrow> s)
      else if \<not> clear then Inr ''**********''
      else if prefix ''enc:'' dat then Inr (rev (drop 4 dat))
      else Inl (ErrorString ''cipher: message authentication failed''))"

definition b64_alphabet :: string where
  "b64_alphabet = ''ABCDEFGHIJKLMNOPQRSTUVWXYZabcdefghijklmnopqrstuvwxyz0123456789+/''"

fun b64_encode :: "string \<Rightarrow> string" where
  "b64_encode [] = []"
| "b64_encode [a] =
     (let n = (of_char a :: nat) * 16
      in [b64_alphabet ! (n div 64), b64_alphabet ! (n mod 64), CHR ''='', CHR ''=''])"
| "b64_encode [a, b] =
     (let n = (of_char a :: nat) * 1024 + of_char b * 4
      in [b64_alphabet ! (n div 4096), b64_alphabet ! (n div 64 mod 64),
          b64_alphabet ! (n mod 64), CHR ''=''])"
| "b64_encode (a # b # c # s) =
     (let n = (of_char a :: nat) * 65536 + of_char b * 256 + of_char c
      in [b64_alphabet ! (n div 262144), b64_alphabet ! (n div 4096 mod 64),
          b64_alphabet ! (n div 64 mod 64), b64_alphabet ! (n mod 64)] @ b64_encode s)"

fun index_from :: "nat \<Rightarrow> char \<Rightarrow> string \<Rightarrow> nat option" where
  "index_from n c [] = None"
| "index_from n c (x # xs) = (if c = x then Some n else index_from (n + 1) c xs)"

definition byte :: "nat \<Rightarrow> char" where
  "byte n = Char (odd n) (odd (n div 2)) (odd (n div 4)) (odd (n div 8))
                 (odd (n div 16)) (odd (n div 32)) (odd (n div 64)) (odd (n div 128))"

definition b64_error :: error where
  "b64_error = ErrorString ''illegal base64 data''"

fun b64_decode :: "string \<Rightarrow> error + string" where
  "b64_decode [] = Inr []"
| "b64_decode (a # b # c # e # s) =
     (case (index_from 0 a b64_alphabet, index_from 0 b b64_alphabet) of
        (Some x, Some y) \<Rightarrow>
          if c = CHR ''='' \<and> e = CHR ''='' \<and> s = [] then Inr [byte ((x * 64 + y) div 16)]
          else
            (case index_from 0 c b64_alphabet of
               None \<Rightarrow> Inl b64_error
             | Some z \<Rightarrow>
                 if e = CHR ''='' \<and> s = []
                 then Inr [byte ((x * 4096 + y * 64 + z) div 1024),
                           byte ((x * 4096 + y * 64 + z) div 4 mod 256)]
                 else
                   (case index_from 0 e b64_alphabet of
                      None \<Rightarrow> Inl b64_error
                    | Some w \<Rightarrow>
                        (case b64_decode s of
                           Inl err \<Rightarrow> Inl err
                         | Inr t \<Rightarrow>
                             Inr ([byte ((x * 262144 + y * 4096 + z * 64 + w) div 65536),
                                   byte ((x * 262144 + y * 4096 + z * 64 + w) div 256 mod 256),
                                   byte ((x * 262144 + y * 4096 + z * 64 + w) mod 256)] @ t))))
      | _ \<Rightarrow> Inl b64_error)"
| "b64_decode _ = Inl b64_error"

fun show_nat :: "nat \<Rightarrow> string" where
  "show_nat n = (if n < 10 then [''0123456789'' ! n]
                 else show_nat (n div 10) @ [''0123456789'' ! (n mod 10)])"

definition show_int :: "int \<Rightarrow> string" where
  "show_int i = (if i < 0 then CHR ''-'' # show_nat (nat (- i)) else show_nat (nat i))"

definition json_string :: "string \<Rightarrow> string" where
  "json_string s =
     [CHR 0x22] @ concat (map (\<lambda>c. if c = CHR 0x22 \<or> c = CHR 0x5C then [CHR 0x5C, c] else [c]) s) @ [CHR 0x22]"

definition json_variable :: "Variable \<Rightarrow> string" where
  \<open>json_variable v =
     ''{"id":'' @ show_int (ID v) @ '',"name":'' @ json_string (Name v) @
     '',"value":'' @ json_string (Value v) @ '',"type":'' @ json_string (Type v) @ ''}''\<close>

fun json_elements :: "Variable list \<Rightarrow> string" where
  "json_elements [] = []"
| "json_elements [v] = json_variable v"
| "json_elements (v # vs) = json_variable v @ '','' @ json_elements vs"

definition example_Marshal :: "Variable list \<Rightarrow> error + string" where
  "example_Marshal vs = Inr (''['' @ json_elements vs @ '']'')"

definition expect :: "string \<Rightarrow> string \<Rightarrow> string option" where
  "expect lit s = (if prefix lit s then Some (drop (length lit) s) else None)"

fun read_string :: "string \<Rightarrow> (string \<times> string) option" where
  "read_string [] = None"
| "read_string (c # s) =
     (if c = CHR 0x22 then Some ([], s)
      else if c = CHR 0x5C then
        (case s of
           [] \<Rightarrow> None
         | e # s' \<Rightarrow> (case read_string s' of None \<Rightarrow> None | Some (v, r) \<Rightarrow> Some (e # v, r)))
      else (case read_string s of None \<Rightarrow> None | Some (v, r) \<Rightarrow> Some (c # v, r)))"

definition read_nat :: "string \<Rightarrow> (nat \<times> string) option" where
  "read_nat s =
     (let ds = takeWhile (\<lambda>c. c \<in> set ''0123456789'') s in
      if ds = [] then None
      else Some (foldl (\<lambda>n c. n * 10 + (case index_from 0 c ''0123456789'' of None \<Rightarrow> 0 | Some k \<Rightarrow> k)) 0 ds,
                 drop (length ds) s))"

definition read_int :: "string \<Rightarrow> (int \<times> string) option" where
  "read_int s =
     (case s of
        [] \<Rightarrow> None
      | c # s' \<Rightarrow>
          if c = CHR ''-'' then (case read_nat s' of None \<Rightarrow> None | Some (n, r) \<Rightarrow> Some (- int n, r))
          else (case read_nat s of None \<Rightarrow> None | Some (n, r) \<Rightarrow> Some (int n, r)))"

definition read_variable :: "string \<Rightarrow> (Variable \<times> string) option" where
  \<open>read_variable s0 =
     (case expect ''{"id":'' s0 of None \<Rightarrow> None | Some s1 \<Rightarrow>
     (case read_int s1 of None \<Rightarrow> None | Some (i, s2) \<Rightarrow>
     (case expect '',"name":"'' s2 of None \<Rightarrow> None | Some s3 \<Rightarrow>
     (case read_string s3 of None \<Rightarrow> None | Some (n, s4) \<Rightarrow>
     (case expect '',"value":"'' s4 of None \<Rightarrow> None | Some s5 \<Rightarrow>
     (case read_string s5 of None \<Rightarrow> None | Some (v, s6) \<Rightarrow>
     (case expect '',"type":"'' s6 of None \<Rightarrow> None | Some s7 \<Rightarrow>
     (case read_string s7 of None \<Rightarrow> None | Some (t, s8) \<Rightarrow>
     (case expect ''}'' s8 of None \<Rightarrow> None | Some s9 \<Rightarrow>
        Some (\<lparr>ID = i, Name = n, Value = v, Type = t\<rparr>, s9))))))))))\<close>

text \<open>The elements of a non-empty array; the first argument bounds their number.\<close>

fun read_elements :: "nat \<Rightarrow> string \<Rightarrow> Variable list option" where
  "read_elements 0 s = None"
| "read_elements (Suc k) s =
     (case read_variable s of
        None \<Rightarrow> None
      | Some (v, s') \<Rightarrow>
          if s' = '']'' then Some [v]
          else (case expect '','' s' of
                  None \<Rightarrow> None
                | Some s'' \<Rightarrow> (case read_elements k s'' of None \<Rightarrow> None | Some vs \<Rightarrow> Some (v # vs))))"

definition example_Unmarshal :: "string \<Rightarrow> Variable list \<times> error option" where
  "example_Unmarshal s =
     (if s = ''[]'' \<or> s = ''null'' then ([], None)
      else (case expect ''['' s of
              None \<Rightarrow> ([], Some (ErrorString ''invalid character''))
            | Some s' \<Rightarrow>
                (case read_elements (length s) s' of
                   None \<Rightarrow> ([], Some (ErrorString ''invalid character''))
                 | Some vs \<Rightarrow> (vs, None))))"

definition example_deps :: deps where
  "example_deps =
     \<lparr>NeedPlaceholder = example_NeedPlaceholder,
      PasswordPlaceholder = ''**********'',
      VariableTypeFromString = example_VariableTypeFromString,
      EncryptS = example_EncryptS,
      DecryptS = example_DecryptS,
      EncodeToString = b64_encode,
      DecodeString = b64_decode,
      Marshal = example_Marshal,
      Unmarshal = example_Unmarshal\<rparr>"

text \<open>
  Two applications \<open>A\<close> and \<open>B\<close> of the project \<open>KEY\<close>, no variable yet, and a
  store that refuses nothing.
\<close>

definition example_db :: database where
  "example_db =
     \<lparr>application = [\<lparr>a_id = 1, a_name = ''A'', a_project_id = 1, a_last_modified = 0\<rparr>,
                     \<lparr>a_id = 2, a_name = ''B'', a_project_id = 1, a_last_modified = 0\<rparr>],
      project = [\<lparr>p_id = 1, p_projectkey = ''KEY''\<rparr>],
      application_variable = [],
      application_variable_audit = [],
      application_variable_id_seq = 1,
      application_variable_audit_id_seq = 1,
      current_timestamp = 100,
      fault = (\<lambda>_. None)\<rparr>"

text \<open>
  The same store after application \<open>A\<close> has received the secret \<open>DB_PASS\<close>
  (plaintext \<open>s3cr3t\<close>) and the string \<open>ENV\<close>, and application \<open>B\<close> a secret
  \<open>DB_PASS\<close> of its own (plaintext \<open>other\<close>).
\<close>

definition example_db_vars :: database where
  "example_db_vars =
     \<lparr>application = [\<lparr>a_id = 1, a_name = ''A'', a_project_id = 1, a_last_modified = 100\<rparr>,
                     \<lparr>a_id = 2, a_name = ''B'', a_project_id = 1, a_last_modified = 100\<rparr>],
      project = [\<lparr>p_id = 1, p_projectkey = ''KEY''\<rparr>],
      application_variable =
        [\<lparr>v_id = 1, v_application_id = 1, var_name = ''DB_PASS'', var_value = None,
          cipher_value = ''enc:t3rc3s'', var_type = ''password''\<rparr>,
         \<lparr>v_id = 2, v_application_id = 1, var_name = ''ENV'', var_value = Some ''prod'',
          cipher_value = [], var_type = ''string''\<rparr>,
         \<lparr>v_id = 3, v_application_id = 2, var_name = ''DB_PASS'', var_value = None,
          cipher_value = ''enc:rehto'', var_type = ''password''\<rparr>],
      application_variable_audit = [],
      application_variable_id_seq = 4,
      application_variable_audit_id_seq = 1,
      current_timestamp = 100,
      fault = (\<lambda>_. None)\<rparr>"

section \<open>Properties\<close>

lemmas example_defs =
  example_deps_def example_db_def example_db_vars_def example_NeedPlaceholder_def
  example_VariableTypeFromString_def example_EncryptS_def example_DecryptS_def
  example_Marshal_def example_Unmarshal_def json_variable_def json_string_def show_int_def
  expect_def read_variable_def read_int_def read_nat_def b64_alphabet_def byte_def b64_error_def

lemmas storage_defs =
  query_all_variable_def query_all_variable_by_id_def query_row_variable_def
  query_variable_audit_def query_row_audit_def exec_insert_audit_def exec_insert_variable_def
  exec_update_variable_def exec_delete_variable_def exec_delete_all_variable_def
  exec_update_last_modified_def duplicate_key_def

text \<open>The store of the examples is reached by the file's own \<open>InsertVariable\<close>.\<close>

lemma example_db_vars_reached:
  "snd (InsertVariable example_deps
         (snd (InsertVariable example_deps
                (snd (InsertVariable example_deps example_db 1
                       \<lparr>ID = 0, Name = ''DB_PASS'', Value = ''s3cr3t'', Type = ''password''\<rparr>))
                1 \<lparr>ID = 0, Name = ''ENV'', Value = ''prod'', Type = ''string''\<rparr>))
         2 \<lparr>ID = 0, Name = ''DB_PASS'', Value = ''other'', Type = ''password''\<rparr>)
   = example_db_vars"
  by (simp add: InsertVariable_def UpdateLastModified_def storage_defs example_defs)

subsection \<open>UpdateVariable: the placeholder is not written back\<close>

text \<open>
  C4. For a variable of a secret kind whose value is the redaction placeholder,
  \<open>UpdateVariable\<close> returns \<open>nil\<close> and the database is the one it was given: no
  column of no row is written, and \<open>last_modified\<close> of the application is not bumped.
\<close>

theorem UpdateVariable_placeholder_noop:
  assumes "NeedPlaceholder d (Type variable)"
    and "Value variable = PasswordPlaceholder d"
  shows "UpdateVariable d db applicationID variable = (None, db)"
  using assms by (simp add: UpdateVariable_def)

theorem UpdateVariable_placeholder_noop_witness:
  "UpdateVariable example_deps example_db_vars 1
     \<lparr>ID = 1, Name = ''DB_PASS'', Value = ''**********'', Type = ''password''\<rparr>
   = (None, example_db_vars)"
proof -
  have kind: "NeedPlaceholder example_deps
      (Type \<lparr>ID = 1, Name = ''DB_PASS'', Value = ''**********'', Type = ''password''\<rparr>)"
    by (simp add: example_deps_def example_NeedPlaceholder_def)
  have val: "Value \<lparr>ID = 1, Name = ''DB_PASS'', Value = ''**********'', Type = ''password''\<rparr>
      = PasswordPlaceholder example_deps"
    by (simp add: example_deps_def)
  show ?thesis
    by (rule UpdateVariable_placeholder_noop [OF kind val])
qed

subsection \<open>DeleteVariable\<close>

text \<open>
  What \<open>DeleteVariable\<close> removes when the store accepts the statement: every row
  with the given name, of whatever application, as soon as an application with the
  given identifier exists.
\<close>

lemma DeleteVariable_removes:
  assumes "fault db DeleteApplicationVariable = None"
    and "list_ex (\<lambda>a. a_id a = applicationID) (application db)"
  shows "application_variable (snd (DeleteVariable db applicationID variableName))
         = filter (\<lambda>v. var_name v \<noteq> variableName) (application_variable db)"
proof -
  have same: "(\<lambda>v. \<not> list_ex (\<lambda>a. a_id a = applicationID \<and> var_name v = variableName) (application db))
      = (\<lambda>v. var_name v \<noteq> variableName)"
    using assms(2) by (auto simp: list_ex_iff)
  show ?thesis
    using assms(1)
    by (simp add: DeleteVariable_def exec_delete_variable_def UpdateLastModified_def
        exec_update_last_modified_def same split: option.splits)
qed

text \<open>
  C2. Deleting \<open>DB_PASS\<close> of application \<open>A\<close> (identifier 1) succeeds and leaves only
  \<open>ENV\<close>: the variable \<open>DB_PASS\<close> of application \<open>B\<close> (identifier 2) is removed too.
\<close>

theorem DeleteVariable_removes_other_application:
  "fst (DeleteVariable example_db_vars 1 ''DB_PASS'') = None \<and>
   application_variable (snd (DeleteVariable example_db_vars 1 ''DB_PASS'')) =
     [\<lparr>v_id = 2, v_application_id = 1, var_name = ''ENV'', var_value = Some ''prod'',
       cipher_value = [], var_type = ''string''\<rparr>]"
  by (simp add: DeleteVariable_def UpdateLastModified_def storage_defs example_db_vars_def)

subsection \<open>LoadVariable\<close>

text \<open>What \<open>LoadVariable\<close> returns on a row whose clear column is not NULL, and on no row.\<close>

lemma LoadVariable_clear_column:
  assumes "query_row_variable db appID varName = Inr r" and "var_value r = Some val"
  shows "LoadVariable d db appID varName =
           Inr \<lparr>ID = v_id r, Name = var_name r,
                Value = (if NeedPlaceholder d (var_type r) then PasswordPlaceholder d else val),
                Type = var_type r\<rparr>"
  using assms by (simp add: LoadVariable_def)

lemma LoadVariable_no_row:
  assumes "fault db SelectVariable = None"
    and "filter (\<lambda>v. v_application_id v = appID \<and> var_name v = varName) (application_variable db) = []"
  shows "LoadVariable d db appID varName = Inl ErrNoRows"
  using assms by (simp add: LoadVariable_def query_row_variable_def)

text \<open>
  C7. On the secret \<open>DB_PASS\<close> of application \<open>A\<close>, stored by \<open>InsertVariable\<close> with a
  NULL clear column, \<open>LoadVariable\<close> returns the error of the scan, not the variable
  with the placeholder.
\<close>

theorem LoadVariable_secret_scan_error:
  "LoadVariable example_deps example_db_vars 1 ''DB_PASS'' = Inl ErrScanNull"
  by (simp add: LoadVariable_def query_row_variable_def example_db_vars_def)

end
